theory Spec2Isabelle
  imports Main "HOL-Library.Word" "HOL-Library.AList"
begin

section \<open>JavaScript values\<close>

text \<open>
  A JavaScript string is a sequence of UTF-16 code units. String literals of the source
  are ASCII and are written \<open>lit ''...''\<close>.
\<close>

type_synonym jschar = "16 word"
type_synonym jsstring = "jschar list"

definition lit :: "string \<Rightarrow> jsstring" where
  "lit s = map of_char s"

text \<open>
  The primitive values a field of a paragraph record can hold. Numbers, symbols and
  nested objects are not values of this model: the source never produces them and
  \<open>ParagraphData\<close> declares \<open>text\<close> a string.
\<close>

datatype jsval = JUndefined | JNull | JBool bool | JStr jsstring

datatype error = TypeError

text \<open>ToBoolean: \<open>undefined\<close>, \<open>null\<close>, \<open>false\<close> and \<open>''\<close> are falsy.\<close>

fun truthy :: "jsval \<Rightarrow> bool" where
  "truthy JUndefined = False"
| "truthy JNull = False"
| "truthy (JBool b) = b"
| "truthy (JStr s) = (s \<noteq> [])"

text \<open>ToString on primitives.\<close>

fun ToString :: "jsval \<Rightarrow> jsstring" where
  "ToString JUndefined = lit ''undefined''"
| "ToString JNull = lit ''null''"
| "ToString (JBool b) = (if b then lit ''true'' else lit ''false'')"
| "ToString (JStr s) = s"

text \<open>\<open>a || b\<close>: the left operand when it is truthy, the right one otherwise.\<close>

definition js_or :: "jsval \<Rightarrow> jsval \<Rightarrow> jsval" where
  "js_or a b = (if truthy a then a else b)"

text \<open>\<open>!a\<close>.\<close>

definition js_not :: "jsval \<Rightarrow> jsval" where
  "js_not a = JBool (\<not> truthy a)"

text \<open>
  \<open>a + b\<close> where the left operand is a string: the concatenation of the two operands'
  string forms. (\<open>ToString\<close> of a string is the string itself.) The only \<open>+\<close> of the
  source, in \<open>merge\<close>, has \<open>this.data.text\<close> on the left, which the getter has just
  written as a string.
\<close>

definition string_plus :: "jsval \<Rightarrow> jsval \<Rightarrow> jsval" where
  "string_plus a b = JStr (ToString a @ ToString b)"

subsection \<open>Objects\<close>

text \<open>
  An object is the list of its own properties in creation order. A key can be present
  with the value \<open>undefined\<close>, which differs from an absent key under the spread syntax.
  The first binding of a key is the property; every operation below reads and writes
  through it.
\<close>

type_synonym jsobj = "(jsstring \<times> jsval) list"

definition k_text :: jsstring where
  "k_text = lit ''text''"

definition k_speakable :: jsstring where
  "k_speakable = lit ''speakable''"

text \<open>\<open>o.k\<close>: the value of the property, \<open>undefined\<close> when the object has none.\<close>

definition get_prop :: "jsobj \<Rightarrow> jsstring \<Rightarrow> jsval" where
  "get_prop obj k = (case map_of obj k of None \<Rightarrow> JUndefined | Some v \<Rightarrow> v)"

definition has_prop :: "jsobj \<Rightarrow> jsstring \<Rightarrow> bool" where
  "has_prop obj k = (map_of obj k \<noteq> None)"

text \<open>\<open>o.k = v\<close>: overwrites the property in place, or appends a new one.\<close>

definition set_prop :: "jsstring \<Rightarrow> jsval \<Rightarrow> jsobj \<Rightarrow> jsobj" where
  "set_prop k v obj = AList.update k v obj"

text \<open>
  \<open>{...src}\<close> onto the properties \<open>target\<close> written so far in an object literal: every
  own key of \<open>src\<close>, in order, is read from \<open>src\<close> and defined on the target, replacing a
  property of the same name.
\<close>

definition spread :: "jsobj \<Rightarrow> jsobj \<Rightarrow> jsobj" where
  "spread src target = fold (\<lambda>k. set_prop k (get_prop src k)) (map fst src) target"

subsection \<open>String.prototype.trim\<close>

text \<open>
  The code units that \<open>trim\<close> strips: ECMAScript's WhiteSpace (TAB, VT, FF, ZWNBSP and
  the space separators of Unicode) and LineTerminator (LF, CR, LS, PS). All lie in the
  basic plane, so the test on code units is exact.
\<close>

definition isWhiteSpace :: "jschar \<Rightarrow> bool" where
  "isWhiteSpace c \<longleftrightarrow>
     c = 0x9 \<or> c = 0xA \<or> c = 0xB \<or> c = 0xC \<or> c = 0xD \<or> c = 0x20 \<or> c = 0xA0 \<or>
     c = 0x1680 \<or> (0x2000 \<le> c \<and> c \<le> 0x200A) \<or> c = 0x2028 \<or> c = 0x2029 \<or>
     c = 0x202F \<or> c = 0x205F \<or> c = 0x3000 \<or> c = 0xFEFF"

definition trim :: "jsstring \<Rightarrow> jsstring" where
  "trim s = rev (dropWhile isWhiteSpace (rev (dropWhile isWhiteSpace s)))"

section \<open>The DOM elements the block owns\<close>

text \<open>
  An element is modelled by the properties the source reads and writes. The field
  \<open>innerHTML\<close> is the markup that reading \<open>el.innerHTML\<close> returns: the serialisation of
  the element's children. Assigning a string to \<open>el.innerHTML\<close> makes the browser parse
  it into children, so what is read back afterwards is the serialisation of the parsed
  string, which differs from the string assigned unless that was serialised markup
  already (\<open>a & b\<close> reads back \<open>a &amp; b\<close>, \<open><b>x\<close> reads back \<open><b>x</b>\<close>).
  Parsing and serialising are the browser's, so their composition is a parameter
  \<open>reparse\<close> of every operation that assigns markup. \<open>textContent\<close> is computed by the
  browser from the element's content; where the source reads it, the model takes it as
  a function of the element.
\<close>

record element =
  classList :: "jsstring list"
  contentEditable :: bool
  dataset_placeholder :: "jsstring option"
  keyup_listener :: bool
  innerHTML :: jsstring

text \<open>\<open>document.createElement(tag)\<close>: a fresh, empty element.\<close>

definition createElement :: element where
  "createElement =
     \<lparr>classList = [], contentEditable = False, dataset_placeholder = None,
      keyup_listener = False, innerHTML = []\<rparr>"

definition classList_add :: "jsstring \<Rightarrow> element \<Rightarrow> element" where
  "classList_add c el =
     (if c \<in> set (classList el) then el else el\<lparr>classList := classList el @ [c]\<rparr>)"

definition classList_remove :: "jsstring \<Rightarrow> element \<Rightarrow> element" where
  "classList_remove c el = el\<lparr>classList := filter (\<lambda>x. x \<noteq> c) (classList el)\<rparr>"

text \<open>
  The markup read back after the string \<open>s\<close> was assigned. The empty string parses to
  no child, and an element without children serialises to the empty string; any other
  string reads back as the browser's \<open>reparse s\<close>.
\<close>

definition read_back :: "(jsstring \<Rightarrow> jsstring) \<Rightarrow> jsstring \<Rightarrow> jsstring" where
  "read_back reparse s = (if s = [] then [] else reparse s)"

text \<open>
  \<open>el.innerHTML = v\<close>: the value is converted to a string (\<open>null\<close> to the empty
  string, as the DOM declares for this attribute) and replaces the element's children.
\<close>

definition set_innerHTML :: "(jsstring \<Rightarrow> jsstring) \<Rightarrow> jsval \<Rightarrow> element \<Rightarrow> element" where
  "set_innerHTML reparse v el =
     el\<lparr>innerHTML := read_back reparse (case v of JNull \<Rightarrow> [] | _ \<Rightarrow> ToString v)\<rparr>"

definition focused :: jsstring where
  "focused = lit ''ce-inline-tool--focused''"

section \<open>The Paragraph class\<close>

text \<open>The host's API object, as far as the constructor and \<open>drawView\<close> read it.\<close>

record api =
  styles_block :: jsstring
  i18n_t :: "jsval \<Rightarrow> jsstring"

text \<open>\<open>ParagraphConfig\<close>: a key the host leaves out reads \<open>undefined\<close>.\<close>

record config =
  placeholder :: jsval
  preserveBlank :: jsval

text \<open>The constructor's parameter object \<open>{data, config, api, readOnly}\<close>; \<open>data\<close> may be absent.\<close>

record params =
  params_data :: "jsobj option"
  params_config :: config
  params_api :: api
  params_readOnly :: bool

text \<open>
  The instance: \<open>this.api\<close>, \<open>this.readOnly\<close>, \<open>this._CSS\<close>, \<open>this._placeholder\<close>,
  \<open>this._data\<close>, \<open>this._element\<close>, \<open>this._preserveBlank\<close> and \<open>this.speakableButton\<close>
  (\<open>undefined\<close> until \<open>renderSettings\<close> assigns it).
\<close>

record block =
  this_api :: api
  this_readOnly :: bool
  this_CSS_block :: jsstring
  this_CSS_wrapper :: jsstring
  this_placeholder :: jsval
  this_data :: jsobj
  this_element :: element
  this_preserveBlank :: jsval
  this_speakableButton :: "element option"

record keyboardEvent =
  code :: jsstring


definition DEFAULT_PLACEHOLDER :: jsval where
  "DEFAULT_PLACEHOLDER = JStr []"

text \<open>
  \<open>get data()\<close>: copies the surface's markup into the backing record and returns that
  record.
\<close>

definition get_data :: "block \<Rightarrow> jsobj \<times> block" where
  "get_data b =
     (let text = innerHTML (this_element b);
          d = set_prop k_text (JStr text) (this_data b)
      in (d, b\<lparr>this_data := d\<rparr>))"

text \<open>
  \<open>set data(data)\<close>: stores the record (\<open>{}\<close> for an absent one) and writes
  \<open>this._data.text || ''\<close> to the surface.
\<close>

definition set_data :: "(jsstring \<Rightarrow> jsstring) \<Rightarrow> jsobj option \<Rightarrow> block \<Rightarrow> block" where
  "set_data reparse data b =
     (let b1 = b\<lparr>this_data := (case data of None \<Rightarrow> [] | Some d \<Rightarrow> d)\<rparr>
      in b1\<lparr>this_element :=
              set_innerHTML reparse (js_or (get_prop (this_data b1) k_text) (JStr []))
                (this_element b1)\<rparr>)"

text \<open>
  \<open>drawView()\<close>, as a function of the fields of \<open>this\<close> it reads: the API, the two
  class names, the placeholder and the read-only flag.
\<close>

definition drawView :: "api \<Rightarrow> jsstring \<Rightarrow> jsstring \<Rightarrow> jsval \<Rightarrow> bool \<Rightarrow> element" where
  "drawView a wrapper blk ph ro =
     (let div0 = createElement;
          div1 = classList_add blk (classList_add wrapper div0);
          div2 = div1\<lparr>contentEditable := False\<rparr>;
          div3 = div2\<lparr>dataset_placeholder := Some (i18n_t a ph)\<rparr>
      in if \<not> ro then div3\<lparr>contentEditable := True, keyup_listener := True\<rparr> else div3)"

text \<open>The constructor.\<close>

definition Paragraph :: "(jsstring \<Rightarrow> jsstring) \<Rightarrow> params \<Rightarrow> block" where
  "Paragraph reparse p =
     (let css_block = styles_block (params_api p);
          css_wrapper = lit ''ce-paragraph'';
          ph = (if truthy (placeholder (params_config p)) then placeholder (params_config p)
                else DEFAULT_PLACEHOLDER);
          this = \<lparr>this_api = params_api p, this_readOnly = params_readOnly p,
                  this_CSS_block = css_block, this_CSS_wrapper = css_wrapper,
                  this_placeholder = ph, this_data = [],
                  this_element = drawView (params_api p) css_wrapper css_block ph (params_readOnly p),
                  this_preserveBlank =
                    (if preserveBlank (params_config p) \<noteq> JUndefined then preserveBlank (params_config p)
                     else JBool False),
                  this_speakableButton = None\<rparr>
      in set_data reparse (params_data p) this)"

text \<open>
  \<open>onKeyUp(e)\<close>. \<open>textContent\<close> is the browser's plain-text reading of the surface.
  The handler assigns the empty string, after which the surface has no child and its
  markup reads back empty.
\<close>

definition onKeyUp :: "(element \<Rightarrow> jsstring) \<Rightarrow> keyboardEvent \<Rightarrow> block \<Rightarrow> block" where
  "onKeyUp textContent e b =
     (if code e \<noteq> lit ''Backspace'' \<and> code e \<noteq> lit ''Delete'' then b
      else if textContent (this_element b) = []
           then b\<lparr>this_element := (this_element b)\<lparr>innerHTML := []\<rparr>\<rparr>
           else b)"

text \<open>
  \<open>renderSettings()\<close>: builds the toggle button, highlighted when \<open>this.data.speakable\<close>
  is truthy, and keeps it in \<open>this.speakableButton\<close>. The holder it returns wraps that
  one button. The button's content is the microphone emoji.
\<close>

definition renderSettings :: "(jsstring \<Rightarrow> jsstring) \<Rightarrow> block \<Rightarrow> block" where
  "renderSettings reparse b =
     (let btn0 = classList_add (lit ''ce-settings__button'') createElement;
          (d, b1) = get_data b;
          btn1 = (if truthy (get_prop d k_speakable) then classList_add focused btn0 else btn0);
          btn2 = set_innerHTML reparse (JStr [0xD83C, 0xDF99, 0xFE0F]) btn1
      in b1\<lparr>this_speakableButton := Some btn2\<rparr>)"

text \<open>
  \<open>setSpeakable(value)\<close>: the object literal \<open>{speakable: value, ...this.data}\<close> goes
  through the setter; then the button's class is switched. Reading \<open>classList\<close> of an
  absent button throws after the record has been stored.
\<close>

definition setSpeakable :: "(jsstring \<Rightarrow> jsstring) \<Rightarrow> jsval \<Rightarrow> block \<Rightarrow> (error + unit) \<times> block" where
  "setSpeakable reparse val b =
     (let (d, b1) = get_data b;
          b2 = set_data reparse (Some (spread d [(k_speakable, val)])) b1
      in case this_speakableButton b2 of
           None \<Rightarrow> (Inl TypeError, b2)
         | Some btn \<Rightarrow>
             (Inr (),
              b2\<lparr>this_speakableButton :=
                   Some (if truthy val then classList_add focused btn
                         else classList_remove focused btn)\<rparr>))"

text \<open>
  \<open>this.speakable\<close>, read by the click handler. No statement of the class assigns a
  property of that name on the instance (the flag is \<open>this._data.speakable\<close>), so the
  read yields \<open>undefined\<close>.
\<close>

definition this_speakable :: "block \<Rightarrow> jsval" where
  "this_speakable b = JUndefined"

text \<open>The click handler that \<open>renderSettings\<close> installs on the button.\<close>

definition click :: "(jsstring \<Rightarrow> jsstring) \<Rightarrow> block \<Rightarrow> (error + unit) \<times> block" where
  "click reparse b = setSpeakable reparse (js_not (this_speakable b)) b"

text \<open>\<open>merge(data)\<close>.\<close>

definition merge :: "(jsstring \<Rightarrow> jsstring) \<Rightarrow> jsobj \<Rightarrow> block \<Rightarrow> block" where
  "merge reparse data b =
     (let (d1, b1) = get_data b;
          t = string_plus (get_prop d1 k_text) (get_prop data k_text);
          (d2, b2) = get_data b1;
          newData = [(k_text, t), (k_speakable, get_prop d2 k_speakable)]
      in set_data reparse (Some newData) b2)"

text \<open>
  \<open>validate(savedData)\<close>: calling \<open>trim\<close> on a \<open>text\<close> that is not a string throws a
  TypeError.
\<close>

definition validate :: "jsobj \<Rightarrow> block \<Rightarrow> error + bool" where
  "validate savedData b =
     (case get_prop savedData k_text of
        JStr s \<Rightarrow>
          (if trim s = [] \<and> \<not> truthy (this_preserveBlank b) then Inr False else Inr True)
      | _ \<Rightarrow> Inl TypeError)"

text \<open>\<open>save(toolsContent)\<close>.\<close>

definition save :: "element \<Rightarrow> block \<Rightarrow> jsobj \<times> block" where
  "save toolsContent b =
     (let t = JStr (innerHTML toolsContent);
          (d, b1) = get_data b
      in ([(k_text, t), (k_speakable, get_prop d k_speakable)], b1))"


section \<open>Properties of a block\<close>

text \<open>
  A string is serialised markup for a browser when the browser reads it back as it was
  assigned.
\<close>

definition serialised :: "(jsstring \<Rightarrow> jsstring) \<Rightarrow> jsstring \<Rightarrow> bool" where
  "serialised reparse s = (read_back reparse s = s)"



section \<open>A concrete host\<close>

text \<open>
  A host API with the identity translation, the configuration that leaves both keys out,
  and an editable block constructed from them.
\<close>

definition host_api :: api where
  "host_api = \<lparr>styles_block = lit ''cdx-block'', i18n_t = ToString\<rparr>"

definition default_config :: config where
  "default_config = \<lparr>placeholder = JUndefined, preserveBlank = JUndefined\<rparr>"

text \<open>
  A browser for the concrete instances: it escapes \<open>&\<close>, \<open><\<close>, \<open>>\<close> and the no-break
  space as the HTML serialiser escapes them in text. This is what a browser reads back
  for a string that holds no tag and no character reference.
\<close>

definition escape_text :: "jsstring \<Rightarrow> jsstring" where
  "escape_text s =
     concat (map (\<lambda>c. if c = 0x26 then lit ''&amp;''
                        else if c = 0xA0 then lit ''&nbsp;''
                        else if c = 0x3C then lit ''&lt;''
                        else if c = 0x3E then lit ''&gt;''
                        else [c]) s)"

definition new_block :: "(jsstring \<Rightarrow> jsstring) \<Rightarrow> jsobj option \<Rightarrow> config \<Rightarrow> block" where
  "new_block reparse d c =
     Paragraph reparse \<lparr>params_data = d, params_config = c, params_api = host_api,
                params_readOnly = False\<rparr>"

text \<open>The block after the user's editing has left the markup \<open>m\<close> in the surface.\<close>

definition edited :: "jsstring \<Rightarrow> block \<Rightarrow> block" where
  "edited m b = b\<lparr>this_element := (this_element b)\<lparr>innerHTML := m\<rparr>\<rparr>"

section \<open>Basic facts\<close>

lemma k_text_neq_k_speakable: "k_text \<noteq> k_speakable"
  by (simp add: k_text_def k_speakable_def lit_def)

lemma get_prop_set_prop:
  "get_prop (set_prop k v obj) k' = (if k' = k then v else get_prop obj k')"
  by (simp add: get_prop_def set_prop_def update_conv')

lemma has_prop_set_prop:
  "has_prop (set_prop k v obj) k' = (k' = k \<or> has_prop obj k')"
  by (simp add: has_prop_def set_prop_def update_conv')

lemma map_of_set_prop:
  "map_of (set_prop k v obj) = (map_of obj)(k \<mapsto> v)"
  by (simp add: set_prop_def update_conv')

lemma map_of_fold_set_prop:
  "map_of (fold (\<lambda>k. set_prop k (f k)) ks target) k' =
     (if k' \<in> set ks then Some (f k') else map_of target k')"
  by (induction ks arbitrary: target) (auto simp: map_of_set_prop)

lemma has_prop_iff: "has_prop obj k \<longleftrightarrow> k \<in> fst ` set obj"
  by (simp add: has_prop_def map_of_eq_None_iff)

lemma map_of_spread:
  "map_of (spread src target) k =
     (if has_prop src k then Some (get_prop src k) else map_of target k)"
  unfolding spread_def has_prop_iff
  using map_of_fold_set_prop [of "get_prop src" "map fst src" target k] by simp

lemma get_prop_spread:
  "get_prop (spread src target) k =
     (if has_prop src k then get_prop src k else get_prop target k)"
  using map_of_spread [of src target k]
  by (simp add: get_prop_def [of "spread src target"] get_prop_def [of target])

lemma has_prop_spread:
  "has_prop (spread src target) k \<longleftrightarrow> has_prop src k \<or> has_prop target k"
  using map_of_spread [of src target k]
  by (simp add: has_prop_def [of "spread src target"] has_prop_def [of target])

lemma dropWhile_all_iff:
  "(\<forall>c\<in>set (dropWhile P s). P c) \<longleftrightarrow> (\<forall>c\<in>set s. P c)"
proof
  assume all: "\<forall>c\<in>set (dropWhile P s). P c"
  have "dropWhile P s = []"
  proof (rule ccontr)
    assume ne: "dropWhile P s \<noteq> []"
    then have "\<not> P (hd (dropWhile P s))"
      by (rule hd_dropWhile)
    moreover from ne have "hd (dropWhile P s) \<in> set (dropWhile P s)"
      by (rule hd_in_set)
    ultimately show False using all by blast
  qed
  then show "\<forall>c\<in>set s. P c"
    by (simp only: dropWhile_eq_Nil_conv)
next
  assume "\<forall>c\<in>set s. P c"
  then show "\<forall>c\<in>set (dropWhile P s). P c"
    by (meson set_dropWhileD)
qed

lemma trim_eq_Nil_iff: "trim s = [] \<longleftrightarrow> (\<forall>c\<in>set s. isWhiteSpace c)"
  by (simp add: trim_def dropWhile_all_iff)

lemma get_data_text:
  "get_prop (fst (get_data b)) k_text = JStr (innerHTML (this_element b))"
  by (simp add: get_data_def Let_def get_prop_set_prop)

lemma get_data_other:
  "k \<noteq> k_text \<Longrightarrow> get_prop (fst (get_data b)) k = get_prop (this_data b) k"
  by (simp add: get_data_def Let_def get_prop_set_prop)

lemma has_prop_get_data:
  "has_prop (fst (get_data b)) k \<longleftrightarrow> k = k_text \<or> has_prop (this_data b) k"
  by (simp add: get_data_def Let_def has_prop_set_prop)

lemma get_data_state: "snd (get_data b) = b\<lparr>this_data := fst (get_data b)\<rparr>"
  by (simp add: get_data_def Let_def)


lemma get_data_this_data: "this_data (snd (get_data b)) = fst (get_data b)"
  by (simp add: get_data_def Let_def)

lemma set_data_this_data:
  "this_data (set_data reparse data b) = (case data of None \<Rightarrow> [] | Some d \<Rightarrow> d)"
  by (simp add: set_data_def Let_def)

lemma read_back_Nil: "read_back reparse [] = []"
  by (simp add: read_back_def)

lemma set_data_innerHTML_str:
  "get_prop R k_text = JStr t \<Longrightarrow>
     innerHTML (this_element (set_data reparse (Some R) b)) = read_back reparse t"
  by (simp add: set_data_def Let_def set_innerHTML_def js_or_def read_back_Nil)

lemma set_data_innerHTML_undef:
  "get_prop R k_text = JUndefined \<Longrightarrow>
     innerHTML (this_element (set_data reparse (Some R) b)) = []"
  by (simp add: set_data_def Let_def set_innerHTML_def js_or_def read_back_Nil)

lemma set_data_None_innerHTML: "innerHTML (this_element (set_data reparse None b)) = []"
  by (simp add: set_data_def Let_def set_innerHTML_def js_or_def get_prop_def read_back_Nil)









lemma serialised_escape_text:
  "\<forall>c\<in>set s. c \<noteq> 0x26 \<and> c \<noteq> 0xA0 \<and> c \<noteq> 0x3C \<and> c \<noteq> 0x3E \<Longrightarrow>
     serialised escape_text s"
proof -
  assume "\<forall>c\<in>set s. c \<noteq> 0x26 \<and> c \<noteq> 0xA0 \<and> c \<noteq> 0x3C \<and> c \<noteq> 0x3E"
  then have "escape_text s = s"
    unfolding escape_text_def by (induction s) simp_all
  then show ?thesis
    by (simp add: serialised_def read_back_def)
qed

lemma click_eq: "click reparse b = setSpeakable reparse (JBool True) b"
  by (simp add: click_def this_speakable_def js_not_def)

lemma setSpeakable_data:
  "this_data (snd (setSpeakable reparse val b)) = spread (fst (get_data b)) [(k_speakable, val)]"
  by (simp add: setSpeakable_def split_def Let_def set_data_this_data split: option.splits)

lemma setSpeakable_speakable:
  "get_prop (this_data (snd (setSpeakable reparse val b))) k_speakable =
     (if has_prop (this_data b) k_speakable then get_prop (this_data b) k_speakable else val)"
  using k_text_neq_k_speakable
  by (auto simp: setSpeakable_data get_prop_spread has_prop_get_data get_data_other)
    (simp add: get_prop_def)

lemma has_prop_setSpeakable:
  "has_prop (this_data (snd (setSpeakable reparse val b))) k_speakable"
  by (simp add: setSpeakable_data has_prop_spread) (simp add: has_prop_def)

lemma setSpeakable_button:
  "this_speakableButton b = Some btn \<Longrightarrow>
     fst (setSpeakable reparse val b) = Inr () \<and>
     this_speakableButton (snd (setSpeakable reparse val b)) =
       Some (if truthy val then classList_add focused btn else classList_remove focused btn)"
  by (simp add: setSpeakable_def split_def Let_def set_data_def get_data_def)

lemma renderSettings_data: "this_data (renderSettings reparse b) = fst (get_data b)"
  by (simp add: renderSettings_def split_def Let_def get_data_def)

lemma renderSettings_button:
  "this_speakableButton (renderSettings reparse b) =
     Some (set_innerHTML reparse (JStr [0xD83C, 0xDF99, 0xFE0F])
       (if truthy (get_prop (this_data b) k_speakable)
        then classList_add focused (classList_add (lit ''ce-settings__button'') createElement)
        else classList_add (lit ''ce-settings__button'') createElement))"
  using k_text_neq_k_speakable
  by (simp add: renderSettings_def split_def Let_def get_data_other)

lemma new_block_data: "this_data (new_block reparse (Some d) c) = d"
  by (simp add: new_block_def Paragraph_def Let_def set_data_this_data)

section \<open>The claims\<close>

text \<open>
  C1, as stated, fails: the setter stores \<open>R.text\<close> in the record and assigns it to the
  surface, and the getter returns what the surface reads back. With the record
  \<open>{text: "a & b"}\<close> and a browser that escapes the ampersand, set followed by get
  returns the text \<open>"a &amp; b"\<close>.
\<close>

theorem set_get_ampersand:
  "get_prop [(k_text, JStr (lit ''a & b''))] k_text = JStr (lit ''a & b'') \<and>
   get_prop (fst (get_data (set_data escape_text (Some [(k_text, JStr (lit ''a & b''))])
      (new_block escape_text None default_config)))) k_text = JStr (lit ''a &amp; b'') \<and>
   lit ''a &amp; b'' \<noteq> lit ''a & b''"
proof -
  let ?R = "[(k_text, JStr (lit ''a & b''))]"
  have h: "get_prop ?R k_text = JStr (lit ''a & b'')"
    by (simp add: get_prop_def)
  have r: "read_back escape_text (lit ''a & b'') = lit ''a &amp; b''"
    by (simp add: read_back_def escape_text_def lit_def)
  have n: "lit ''a &amp; b'' \<noteq> lit ''a & b''"
    by (simp add: lit_def)
  show ?thesis
    using h n by (simp add: get_data_text set_data_innerHTML_str [OF h] r)
qed

text \<open>
  C1, amended: for every record \<open>R\<close> and every browser, the data-set operation with \<open>R\<close>
  followed by the data-get operation returns a record whose \<open>text\<close> is what the surface
  reads back after \<open>R.text\<close> was assigned: \<open>R.text\<close> itself whenever that is serialised
  markup, and the empty string when \<open>R.text\<close> is absent; its \<open>speakable\<close> is
  \<open>R.speakable\<close>. Setting an absent record is setting the empty record.
\<close>

theorem set_get_roundtrip:
  "(get_prop R k_text = JStr t \<longrightarrow>
      get_prop (fst (get_data (set_data reparse (Some R) b))) k_text
        = JStr (read_back reparse t)) \<and>
   (get_prop R k_text = JStr t \<and> serialised reparse t \<longrightarrow>
      get_prop (fst (get_data (set_data reparse (Some R) b))) k_text = JStr t) \<and>
   (get_prop R k_text = JUndefined \<longrightarrow>
      get_prop (fst (get_data (set_data reparse (Some R) b))) k_text = JStr []) \<and>
   get_prop (fst (get_data (set_data reparse (Some R) b))) k_speakable
     = get_prop R k_speakable \<and>
   set_data reparse None b = set_data reparse (Some []) b \<and>
   get_prop (fst (get_data (set_data reparse None b))) k_text = JStr [] \<and>
   get_prop (fst (get_data (set_data reparse None b))) k_speakable = JUndefined"
proof (intro conjI impI)
  assume "get_prop R k_text = JStr t"
  then show "get_prop (fst (get_data (set_data reparse (Some R) b))) k_text
      = JStr (read_back reparse t)"
    by (simp add: get_data_text set_data_innerHTML_str)
next
  assume "get_prop R k_text = JStr t \<and> serialised reparse t"
  then show "get_prop (fst (get_data (set_data reparse (Some R) b))) k_text = JStr t"
    by (simp add: get_data_text set_data_innerHTML_str serialised_def)
next
  assume "get_prop R k_text = JUndefined"
  then show "get_prop (fst (get_data (set_data reparse (Some R) b))) k_text = JStr []"
    by (simp add: get_data_text set_data_innerHTML_undef)
next
  have "k_speakable \<noteq> k_text"
    using k_text_neq_k_speakable by simp
  then show "get_prop (fst (get_data (set_data reparse (Some R) b))) k_speakable
      = get_prop R k_speakable"
    by (simp add: get_data_other set_data_this_data)
next
  show "set_data reparse None b = set_data reparse (Some []) b"
    by (simp add: set_data_def)
next
  show "get_prop (fst (get_data (set_data reparse None b))) k_text = JStr []"
    by (simp add: get_data_text set_data_None_innerHTML)
next
  have "k_speakable \<noteq> k_text"
    using k_text_neq_k_speakable by simp
  then show "get_prop (fst (get_data (set_data reparse None b))) k_speakable = JUndefined"
    by (simp add: get_data_other set_data_this_data) (simp add: get_prop_def)
qed

theorem set_get_roundtrip_witness:
  "get_prop [(k_text, JStr (lit ''Hi'')), (k_speakable, JBool True)] k_text = JStr (lit ''Hi'') \<and>
   serialised escape_text (lit ''Hi'') \<and>
   get_prop (fst (get_data (set_data escape_text
      (Some [(k_text, JStr (lit ''Hi'')), (k_speakable, JBool True)])
      (new_block escape_text None default_config)))) k_text = JStr (lit ''Hi'') \<and>
   get_prop [(k_speakable, JBool True)] k_text = JUndefined \<and>
   get_prop (fst (get_data (set_data escape_text (Some [(k_speakable, JBool True)])
      (new_block escape_text None default_config)))) k_text = JStr [] \<and>
   get_prop (fst (get_data (set_data escape_text (Some [(k_speakable, JBool True)])
      (new_block escape_text None default_config)))) k_speakable = JBool True"
proof -
  let ?R = "[(k_text, JStr (lit ''Hi'')), (k_speakable, JBool True)]"
  let ?S = "[(k_speakable, JBool True)]"
  let ?b = "new_block escape_text None default_config"
  have h: "get_prop ?R k_text = JStr (lit ''Hi'')"
    by (simp add: get_prop_def)
  have s: "serialised escape_text (lit ''Hi'')"
    by (rule serialised_escape_text) (simp add: lit_def)
  have u: "get_prop ?S k_text = JUndefined"
    using k_text_neq_k_speakable by (simp add: get_prop_def)
  have v: "get_prop ?S k_speakable = JBool True"
    by (simp add: get_prop_def)
  note r = set_get_roundtrip [of ?R "lit ''Hi''" escape_text ?b]
  note q = set_get_roundtrip [of ?S "[]" escape_text ?b]
  have r1: "get_prop (fst (get_data (set_data escape_text (Some ?R) ?b))) k_text
      = JStr (lit ''Hi'')"
    using r h s by blast
  have q1: "get_prop (fst (get_data (set_data escape_text (Some ?S) ?b))) k_text = JStr []"
    using q u by blast
  have q2: "get_prop (fst (get_data (set_data escape_text (Some ?S) ?b))) k_speakable
      = JBool True"
    using q v by simp
  show ?thesis
    using h s u r1 q1 q2 by simp
qed

text \<open>
  C2: clicking the speakable toggle should store a record whose \<open>speakable\<close> is the
  negation of the current value and set the button's highlight to match. The handler
  computes \<open>!this.speakable\<close>, which is always \<open>true\<close>, and \<open>setSpeakable\<close> spreads the
  existing record after the new \<open>speakable\<close>, so an existing \<open>speakable\<close> wins. Evaluated
  on a block with settings rendered: from \<open>{text: "a", speakable: true}\<close> the click
  returns normally and \<open>speakable\<close> is still \<open>true\<close>; from
  \<open>{text: "a", speakable: false}\<close> it is still \<open>false\<close> while the button is highlighted.
\<close>

theorem click_keeps_speakable:
  "get_prop (this_data (renderSettings reparse (new_block reparse
      (Some [(k_text, JStr (lit ''a'')), (k_speakable, JBool True)]) default_config))) k_speakable
     = JBool True \<and>
   fst (click reparse (renderSettings reparse (new_block reparse
      (Some [(k_text, JStr (lit ''a'')), (k_speakable, JBool True)]) default_config))) = Inr () \<and>
   get_prop (this_data (snd (click reparse (renderSettings reparse (new_block reparse
      (Some [(k_text, JStr (lit ''a'')), (k_speakable, JBool True)]) default_config))))) k_speakable
     = JBool True \<and>
   get_prop (this_data (snd (click reparse (renderSettings reparse (new_block reparse
      (Some [(k_text, JStr (lit ''a'')), (k_speakable, JBool False)]) default_config))))) k_speakable
     = JBool False \<and>
   (case this_speakableButton (snd (click reparse (renderSettings reparse (new_block reparse
      (Some [(k_text, JStr (lit ''a'')), (k_speakable, JBool False)]) default_config)))) of
      None \<Rightarrow> False | Some btn \<Rightarrow> focused \<in> set (classList btn))"
proof -
  let ?t = "renderSettings reparse (new_block reparse
      (Some [(k_text, JStr (lit ''a'')), (k_speakable, JBool True)]) default_config)"
  let ?f = "renderSettings reparse (new_block reparse
      (Some [(k_text, JStr (lit ''a'')), (k_speakable, JBool False)]) default_config)"
  have ne: "k_speakable \<noteq> k_text"
    using k_text_neq_k_speakable by simp
  have t0: "get_prop (this_data ?t) k_speakable = JBool True"
    using ne by (simp add: renderSettings_data get_data_other new_block_data) (simp add: get_prop_def)
  have f0: "get_prop (this_data ?f) k_speakable = JBool False"
    using ne by (simp add: renderSettings_data get_data_other new_block_data) (simp add: get_prop_def)
  have th: "has_prop (this_data ?t) k_speakable"
    by (simp add: renderSettings_data has_prop_get_data new_block_data) (simp add: has_prop_def)
  have fh: "has_prop (this_data ?f) k_speakable"
    by (simp add: renderSettings_data has_prop_get_data new_block_data) (simp add: has_prop_def)
  have t1: "get_prop (this_data (snd (click reparse ?t))) k_speakable = JBool True"
    using th t0 by (simp add: click_eq setSpeakable_speakable)
  have f1: "get_prop (this_data (snd (click reparse ?f))) k_speakable = JBool False"
    using fh f0 by (simp add: click_eq setSpeakable_speakable)
  obtain bt where bt: "this_speakableButton ?t = Some bt"
    by (simp add: renderSettings_button)
  have t2: "fst (click reparse ?t) = Inr ()"
    using setSpeakable_button [OF bt] by (simp add: click_eq)
  obtain bf where bf: "this_speakableButton ?f = Some bf"
    by (simp add: renderSettings_button)
  have f2: "this_speakableButton (snd (click reparse ?f)) = Some (classList_add focused bf)"
    using setSpeakable_button [OF bf, where val = "JBool True"] by (simp add: click_eq)
  have "focused \<in> set (classList (classList_add focused bf))"
    by (simp add: classList_add_def)
  then show ?thesis
    using t0 t1 t2 f1 f2 by simp
qed

text \<open>
  C3: two clicks on the toggle should leave \<open>speakable\<close> at its original value.
  Evaluated on a block constructed from \<open>{text: "a"}\<close>, with settings rendered:
  \<open>speakable\<close> reads \<open>undefined\<close> before the clicks and \<open>true\<close> after the second one.
\<close>

theorem double_click_sets_speakable:
  "get_prop (this_data (renderSettings reparse (new_block reparse (Some [(k_text, JStr (lit ''a''))])
      default_config))) k_speakable = JUndefined \<and>
   get_prop (this_data (snd (click reparse (snd (click reparse (renderSettings reparse (new_block reparse
      (Some [(k_text, JStr (lit ''a''))]) default_config))))))) k_speakable = JBool True"
proof -
  let ?b = "renderSettings reparse (new_block reparse (Some [(k_text, JStr (lit ''a''))]) default_config)"
  have ne: "k_speakable \<noteq> k_text"
    using k_text_neq_k_speakable by simp
  have b0: "get_prop (this_data ?b) k_speakable = JUndefined"
    using ne by (simp add: renderSettings_data get_data_other new_block_data) (simp add: get_prop_def)
  have nh: "\<not> has_prop (this_data ?b) k_speakable"
    using ne by (simp add: renderSettings_data has_prop_get_data new_block_data) (simp add: has_prop_def)
  have c1: "get_prop (this_data (snd (click reparse ?b))) k_speakable = JBool True"
    using nh by (simp add: click_eq setSpeakable_speakable)
  have c2: "get_prop (this_data (snd (click reparse (snd (click reparse ?b))))) k_speakable = JBool True"
    using c1 by (simp add: click_eq setSpeakable_speakable [where b = "snd (setSpeakable reparse (JBool True) ?b)"]
        has_prop_setSpeakable)
  show ?thesis
    using b0 c2 by simp
qed

text \<open>
  C4: for every block, every browser and every record \<open>data\<close> with a string \<open>text\<close>,
  \<open>merge\<close> stores the backing record whose \<open>text\<close> is the block's current text (the
  surface's markup) followed by \<open>data.text\<close>, with nothing between them and nothing
  rewritten, and whose \<open>speakable\<close> is the block's \<open>speakable\<close> from before the merge.
  The surface then holds what the browser reads back for the merged text. The witness
  merges \<open>{text: "World"}\<close> into a block with text \<open>"Hello "\<close>.
\<close>

theorem merge_concatenates:
  assumes "get_prop data k_text = JStr t"
  shows "this_data (merge reparse data b) =
           [(k_text, JStr (innerHTML (this_element b) @ t)),
            (k_speakable, get_prop (this_data b) k_speakable)] \<and>
         get_prop (this_data (merge reparse data b)) k_text
           = JStr (innerHTML (this_element b) @ t) \<and>
         get_prop (this_data (merge reparse data b)) k_speakable
           = get_prop (this_data b) k_speakable \<and>
         innerHTML (this_element (merge reparse data b))
           = read_back reparse (innerHTML (this_element b) @ t)"
proof -
  let ?s = "innerHTML (this_element b)"
  let ?new = "[(k_text, JStr (?s @ t)), (k_speakable, get_prop (this_data b) k_speakable)]"
  have ne: "k_speakable \<noteq> k_text"
    using k_text_neq_k_speakable by simp
  have sp: "get_prop (fst (get_data (snd (get_data b)))) k_speakable
      = get_prop (this_data b) k_speakable"
    using ne by (simp add: get_data_other get_data_this_data)
  have m: "merge reparse data b
      = set_data reparse (Some ?new) (snd (get_data (snd (get_data b))))"
    using assms sp by (simp add: merge_def split_def Let_def get_data_text string_plus_def)
  have t: "get_prop ?new k_text = JStr (?s @ t)"
    by (simp add: get_prop_def)
  have s: "get_prop ?new k_speakable = get_prop (this_data b) k_speakable"
    using ne by (simp add: get_prop_def)
  show ?thesis
    unfolding m using t s by (simp add: set_data_this_data set_data_innerHTML_str)
qed

theorem merge_concatenates_witness:
  "get_prop [(k_text, JStr (lit ''World''))] k_text = JStr (lit ''World'') \<and>
   innerHTML (this_element (new_block escape_text
       (Some [(k_text, JStr (lit ''Hello '')), (k_speakable, JBool True)])
       default_config)) = lit ''Hello '' \<and>
   get_prop (this_data (merge escape_text [(k_text, JStr (lit ''World''))]
     (new_block escape_text (Some [(k_text, JStr (lit ''Hello '')), (k_speakable, JBool True)])
       default_config))) k_text = JStr (lit ''Hello World'') \<and>
   get_prop (this_data (merge escape_text [(k_text, JStr (lit ''World''))]
     (new_block escape_text (Some [(k_text, JStr (lit ''Hello '')), (k_speakable, JBool True)])
       default_config))) k_speakable = JBool True"
proof -
  let ?R = "[(k_text, JStr (lit ''Hello '')), (k_speakable, JBool True)]"
  let ?b = "new_block escape_text (Some ?R) default_config"
  have h: "get_prop [(k_text, JStr (lit ''World''))] k_text = JStr (lit ''World'')"
    by (simp add: get_prop_def)
  have g: "get_prop ?R k_text = JStr (lit ''Hello '')"
    by (simp add: get_prop_def)
  have "serialised escape_text (lit ''Hello '')"
    by (rule serialised_escape_text) (simp add: lit_def)
  then have i: "innerHTML (this_element ?b) = lit ''Hello ''"
    by (simp add: new_block_def Paragraph_def Let_def set_data_innerHTML_str [OF g]
        serialised_def)
  have d: "get_prop (this_data ?b) k_speakable = JBool True"
    using k_text_neq_k_speakable by (simp add: new_block_data) (simp add: get_prop_def)
  have c: "lit ''Hello '' @ lit ''World'' = lit ''Hello World''"
    by (simp add: lit_def)
  from merge_concatenates [OF h, of escape_text ?b]
  have "get_prop (this_data (merge escape_text [(k_text, JStr (lit ''World''))] ?b)) k_text =
          JStr (innerHTML (this_element ?b) @ lit ''World'') \<and>
        get_prop (this_data (merge escape_text [(k_text, JStr (lit ''World''))] ?b)) k_speakable =
          get_prop (this_data ?b) k_speakable"
    by blast
  then show ?thesis
    using h i d c by simp
qed

text \<open>
  C5: for every record whose \<open>text\<close> is a string, \<open>validate\<close> returns false exactly
  when the trimmed text is empty and the instance's \<open>preserveBlank\<close> is falsy, and true
  otherwise. The trimmed text is empty exactly when every code unit of the text is
  white space. A configuration without \<open>preserveBlank\<close> makes the flag \<open>false\<close>; any
  other value is kept. The witness evaluates a text of three spaces and the empty text
  under the default configuration (invalid), the empty text with \<open>preserveBlank\<close> true
  (valid) and a text with a letter (valid).
\<close>

theorem validate_policy:
  "(get_prop savedData k_text = JStr s \<longrightarrow>
      validate savedData b =
        Inr (\<not> (trim s = [] \<and> \<not> truthy (this_preserveBlank b)))) \<and>
   (trim s = [] \<longleftrightarrow> (\<forall>c\<in>set s. isWhiteSpace c)) \<and>
   (preserveBlank (params_config p) = JUndefined \<longrightarrow>
      this_preserveBlank (Paragraph reparse p) = JBool False) \<and>
   (preserveBlank (params_config p) \<noteq> JUndefined \<longrightarrow>
      this_preserveBlank (Paragraph reparse p) = preserveBlank (params_config p))"
  by (simp add: validate_def trim_eq_Nil_iff Paragraph_def Let_def set_data_def)

theorem validate_policy_witness:
  "get_prop [(k_text, JStr (lit ''   '')), (k_speakable, JBool False)] k_text = JStr (lit ''   '') \<and>
   preserveBlank (params_config \<lparr>params_data = None, params_config = default_config,
      params_api = host_api, params_readOnly = False\<rparr>) = JUndefined \<and>
   validate [(k_text, JStr (lit ''   '')), (k_speakable, JBool False)]
     (new_block escape_text None default_config) = Inr False \<and>
   validate [(k_text, JStr (lit ''''))]
     (new_block escape_text None default_config) = Inr False \<and>
   validate [(k_text, JStr (lit ''''))]
     (new_block escape_text None (default_config\<lparr>preserveBlank := JBool True\<rparr>)) = Inr True \<and>
   validate [(k_text, JStr (lit '' a ''))]
     (new_block escape_text None default_config) = Inr True"
proof -
  let ?p = "\<lparr>params_data = None, params_config = default_config,
      params_api = host_api, params_readOnly = False\<rparr>"
  let ?q = "\<lparr>params_data = None, params_config = default_config\<lparr>preserveBlank := JBool True\<rparr>,
      params_api = host_api, params_readOnly = False\<rparr>"
  let ?r = "[(k_text, JStr (lit ''   '')), (k_speakable, JBool False)]"
  have h1: "get_prop ?r k_text = JStr (lit ''   '')"
    by (simp add: get_prop_def)
  have h2: "preserveBlank (params_config ?p) = JUndefined"
    by (simp add: default_config_def)
  have h3: "preserveBlank (params_config ?q) \<noteq> JUndefined"
    by (simp add: default_config_def)
  have e: "get_prop [(k_text, JStr (lit ''''))] k_text = JStr (lit '''')"
    by (simp add: get_prop_def)
  have a: "get_prop [(k_text, JStr (lit '' a ''))] k_text = JStr (lit '' a '')"
    by (simp add: get_prop_def)
  have w: "\<forall>c\<in>set (lit ''   ''). isWhiteSpace c"
    by (simp add: lit_def isWhiteSpace_def)
  have nw: "\<not> (\<forall>c\<in>set (lit '' a ''). isWhiteSpace c)"
    by (simp add: lit_def isWhiteSpace_def)
  have pb: "preserveBlank (params_config ?q) = JBool True"
    by (simp add: default_config_def)
  note v1 = validate_policy [of ?r "lit ''   ''" "Paragraph escape_text ?p" ?p escape_text]
  note v2 = validate_policy [of "[(k_text, JStr (lit ''''))]" "lit ''''" "Paragraph escape_text ?p" ?p]
  note v3 = validate_policy [of "[(k_text, JStr (lit ''''))]" "lit ''''" "Paragraph escape_text ?q" ?q]
  note v4 = validate_policy [of "[(k_text, JStr (lit '' a ''))]" "lit '' a ''" "Paragraph escape_text ?p" ?p]
  have r1: "validate ?r (Paragraph escape_text ?p) = Inr False"
    using v1 h1 h2 w by simp
  have r2: "validate [(k_text, JStr (lit ''''))] (Paragraph escape_text ?p) = Inr False"
    using v2 e h2 by (simp add: lit_def)
  have r3: "validate [(k_text, JStr (lit ''''))] (Paragraph escape_text ?q) = Inr True"
    using v3 e h3 pb by simp
  have r4: "validate [(k_text, JStr (lit '' a ''))] (Paragraph escape_text ?p) = Inr True"
    using v4 a h2 nw by simp
  show ?thesis
    using h1 h2 r1 r2 r3 r4 by (simp add: new_block_def)
qed



text \<open>
  C7: \<open>onKeyUp\<close>, the handler \<open>drawView\<close> subscribes to key-release events of an
  editable surface. For every event, whatever the browser's plain-text reading of the
  surface: when the key is Backspace or Delete and the plain text is empty, the
  surface's markup becomes the empty string and nothing else changes, so that saving
  the surface yields \<open>text\<close> \<open>""\<close>; for every other key, and whenever the plain text is
  not empty, the block is unchanged.
\<close>

theorem onKeyUp_normalizes:
  "((code e = lit ''Backspace'' \<or> code e = lit ''Delete'') \<and> textContent (this_element b) = [] \<longrightarrow>
      onKeyUp textContent e b = b\<lparr>this_element := (this_element b)\<lparr>innerHTML := []\<rparr>\<rparr> \<and>
      innerHTML (this_element (onKeyUp textContent e b)) = [] \<and>
      get_prop (fst (save (this_element (onKeyUp textContent e b)) (onKeyUp textContent e b))) k_text
        = JStr []) \<and>
   (code e \<noteq> lit ''Backspace'' \<and> code e \<noteq> lit ''Delete'' \<longrightarrow> onKeyUp textContent e b = b) \<and>
   (textContent (this_element b) \<noteq> [] \<longrightarrow> onKeyUp textContent e b = b)"
  by (auto simp: onKeyUp_def save_def split_def Let_def get_prop_def)


theorem onKeyUp_normalizes_witness:
  "(code \<lparr>code = lit ''Backspace''\<rparr> = lit ''Backspace'' \<or>
    code \<lparr>code = lit ''Backspace''\<rparr> = lit ''Delete'') \<and>
   (\<lambda>el. if innerHTML el = lit ''<br>'' then [] else innerHTML el)
     (this_element (edited (lit ''<br>'') (new_block escape_text None default_config))) = [] \<and>
   innerHTML (this_element (edited (lit ''<br>'') (new_block escape_text None default_config)))
     = lit ''<br>'' \<and>
   innerHTML (this_element
     (onKeyUp (\<lambda>el. if innerHTML el = lit ''<br>'' then [] else innerHTML el)
        \<lparr>code = lit ''Backspace''\<rparr>
        (edited (lit ''<br>'') (new_block escape_text None default_config)))) = [] \<and>
   code \<lparr>code = lit ''KeyA''\<rparr> \<noteq> lit ''Backspace'' \<and>
   code \<lparr>code = lit ''KeyA''\<rparr> \<noteq> lit ''Delete'' \<and>
   onKeyUp (\<lambda>el. if innerHTML el = lit ''<br>'' then [] else innerHTML el)
     \<lparr>code = lit ''KeyA''\<rparr>
     (edited (lit ''<br>'') (new_block escape_text None default_config))
     = edited (lit ''<br>'') (new_block escape_text None default_config) \<and>
   (\<lambda>el. if innerHTML el = lit ''<br>'' then [] else innerHTML el)
     (this_element (edited (lit ''a'') (new_block escape_text None default_config))) \<noteq> [] \<and>
   onKeyUp (\<lambda>el. if innerHTML el = lit ''<br>'' then [] else innerHTML el)
     \<lparr>code = lit ''Delete''\<rparr>
     (edited (lit ''a'') (new_block escape_text None default_config))
     = edited (lit ''a'') (new_block escape_text None default_config)"
proof -
  let ?tc = "\<lambda>el. if innerHTML el = lit ''<br>'' then [] else innerHTML el"
  let ?b = "edited (lit ''<br>'') (new_block escape_text None default_config)"
  let ?a = "edited (lit ''a'') (new_block escape_text None default_config)"
  have ib: "innerHTML (this_element ?b) = lit ''<br>''"
    by (simp add: edited_def)
  have ia: "innerHTML (this_element ?a) = lit ''a''"
    by (simp add: edited_def)
  have tb: "?tc (this_element ?b) = []"
    using ib by simp
  have ta: "?tc (this_element ?a) \<noteq> []"
    using ia by (simp add: lit_def)
  have k1: "code \<lparr>code = lit ''KeyA''\<rparr> \<noteq> lit ''Backspace''"
    by (simp add: lit_def)
  have k2: "code \<lparr>code = lit ''KeyA''\<rparr> \<noteq> lit ''Delete''"
    by (simp add: lit_def)
  have r1: "innerHTML (this_element (onKeyUp ?tc \<lparr>code = lit ''Backspace''\<rparr> ?b)) = []"
    using onKeyUp_normalizes [of "\<lparr>code = lit ''Backspace''\<rparr>" ?tc ?b] tb by simp
  have r2: "onKeyUp ?tc \<lparr>code = lit ''KeyA''\<rparr> ?b = ?b"
    using onKeyUp_normalizes [of "\<lparr>code = lit ''KeyA''\<rparr>" ?tc ?b] k1 k2 by blast
  have r3: "onKeyUp ?tc \<lparr>code = lit ''Delete''\<rparr> ?a = ?a"
    using onKeyUp_normalizes [of "\<lparr>code = lit ''Delete''\<rparr>" ?tc ?a] ta by blast
  show ?thesis
    using ib tb ta k1 k2 r1 r2 r3 by simp
qed

text \<open>
  C8, as stated, fails: \<open>validate\<close> on a record with no \<open>text\<close> calls \<open>trim\<close> on
  \<open>undefined\<close> and throws a TypeError.
\<close>

theorem validate_absent_text_throws:
  "validate [(k_speakable, JBool False)] (new_block escape_text None default_config) = Inl TypeError"
  using k_text_neq_k_speakable by (simp add: validate_def get_prop_def)

text \<open>
  C8, amended: for every record whose \<open>text\<close> is a string, \<open>validate\<close> returns true or
  false and never throws; on a record whose \<open>text\<close> is absent or not a string it throws
  a TypeError.
\<close>

theorem validate_total_on_string_text:
  "(get_prop savedData k_text = JStr s \<longrightarrow>
      validate savedData b = Inr True \<or> validate savedData b = Inr False) \<and>
   ((\<forall>s. get_prop savedData k_text \<noteq> JStr s) \<longrightarrow>
      validate savedData b = Inl TypeError)"
  by (auto simp: validate_def split: jsval.splits)

theorem validate_total_on_string_text_witness:
  "get_prop [(k_text, JStr (lit ''Hi''))] k_text = JStr (lit ''Hi'') \<and>
   validate [(k_text, JStr (lit ''Hi''))] (new_block escape_text None default_config) = Inr True \<and>
   get_prop [(k_text, JNull)] k_text = JNull \<and>
   validate [(k_text, JNull)] (new_block escape_text None default_config) = Inl TypeError"
proof -
  let ?b = "new_block escape_text None default_config"
  have h: "get_prop [(k_text, JStr (lit ''Hi''))] k_text = JStr (lit ''Hi'')"
    by (simp add: get_prop_def)
  have n: "get_prop [(k_text, JNull)] k_text = JNull"
    by (simp add: get_prop_def)
  have "trim (lit ''Hi'') \<noteq> []"
    by (simp add: trim_eq_Nil_iff lit_def isWhiteSpace_def)
  then have nf: "validate [(k_text, JStr (lit ''Hi''))] ?b \<noteq> Inr False"
    using h by (simp add: validate_def)
  have r1: "validate [(k_text, JStr (lit ''Hi''))] ?b = Inr True"
    using validate_total_on_string_text [of "[(k_text, JStr (lit ''Hi''))]" "lit ''Hi''" ?b] h nf
    by blast
  have r2: "validate [(k_text, JNull)] ?b = Inl TypeError"
    using validate_total_on_string_text [of "[(k_text, JNull)]" _ ?b] n by simp
  show ?thesis
    using h n r1 r2 by simp
qed




text \<open>
  C10: the data-get operation never modifies the editable surface: the element after the
  call is the element before it. Every field of the instance but the backing record is
  unchanged, and the backing record changes only in that \<open>text\<close> now holds the surface's
  markup.
\<close>

theorem get_data_frame:
  "this_element (snd (get_data b)) = this_element b \<and>
   snd (get_data b) = b\<lparr>this_data := fst (get_data b)\<rparr> \<and>
   map_of (fst (get_data b)) = (map_of (this_data b))(k_text \<mapsto> JStr (innerHTML (this_element b)))"
  by (simp add: get_data_def Let_def map_of_set_prop)

end
